theory Spec2Isabelle
  imports Complex_Main "HOL-Library.Char_ord" "HOL-Library.List_Lexorder"
begin

chapter \<open>The retrieval-and-ranking pipeline of the contextual code search engine\<close>

text \<open>
  The development embeds the snippet extractor (\<open>indexing/code_parser.py\<close>), the embedding
  index (\<open>indexing/embedding_generator.py\<close>), the query processor
  (\<open>search/query_processor.py\<close>), the ranking engine (\<open>search/ranking_engine.py\<close>) and the
  search orchestrator (\<open>search/semantic_search.py\<close>).

  Conventions. A Python \<open>str\<close> is a \<^typ>\<open>string\<close> in which every \<^typ>\<open>char\<close> stands for
  one code point below 256 (Latin-1); the character classes below are Python's classes on
  these code points. A Python \<open>float\<close> is a \<^typ>\<open>real\<close>: rounding, infinities and NaN are
  outside the model, except where a NaN is written out as \<open>None\<close>. A Python exception is the
  left injection of a sum type.
\<close>

section \<open>Definitions\<close>

subsection \<open>Python exceptions\<close>

datatype py_error = SyntaxError | ValueError | NameError | KeyError | IndexError | ReError | OtherError

subsection \<open>Python strings\<close>

abbreviation NL :: char where
  "NL \<equiv> CHR 0x0A"

definition is_space :: "char \<Rightarrow> bool" where
  \<comment> \<open>\<open>str.isspace\<close>, and \<open>\s\<close> of the \<open>re\<close> module\<close>
  "is_space c = (of_char c \<in> {9, 10, 11, 12, 13, 28, 29, 30, 31, 32, 133, 160 :: nat})"

definition is_upper :: "char \<Rightarrow> bool" where
  \<comment> \<open>the code points that \<open>str.lower\<close> changes\<close>
  "is_upper c = (let n = of_char c :: nat
                 in (65 \<le> n \<and> n \<le> 90) \<or> (192 \<le> n \<and> n \<le> 222 \<and> n \<noteq> 215))"

definition lower_char :: "char \<Rightarrow> char" where
  "lower_char c = (if is_upper c then char_of (of_char c + 32 :: nat) else c)"

definition is_word :: "char \<Rightarrow> bool" where
  \<comment> \<open>\<open>\w\<close> of the \<open>re\<close> module on a \<open>str\<close> pattern\<close>
  "is_word c = (let n = of_char c :: nat
                in (48 \<le> n \<and> n \<le> 57) \<or> (65 \<le> n \<and> n \<le> 90) \<or> n = 95 \<or> (97 \<le> n \<and> n \<le> 122)
                   \<or> n \<in> {170, 178, 179, 181, 185, 186, 188, 189, 190}
                   \<or> (192 \<le> n \<and> n \<le> 214) \<or> (216 \<le> n \<and> n \<le> 246) \<or> (248 \<le> n \<and> n \<le> 255))"

definition lower :: "string \<Rightarrow> string" where
  "lower s = map lower_char s"

definition lstrip :: "string \<Rightarrow> string" where
  "lstrip s = dropWhile is_space s"

definition rstrip :: "string \<Rightarrow> string" where
  "rstrip s = rev (dropWhile is_space (rev s))"

definition strip :: "string \<Rightarrow> string" where
  "strip s = rstrip (lstrip s)"

fun startswith :: "string \<Rightarrow> string \<Rightarrow> bool" where
  "startswith s [] = True"
| "startswith [] (p # ps) = False"
| "startswith (c # cs) (p # ps) = (c = p \<and> startswith cs ps)"

fun contains :: "string \<Rightarrow> string \<Rightarrow> bool" where
  \<comment> \<open>\<open>contains s sub\<close> is Python's \<open>sub in s\<close>\<close>
  "contains [] sub = (sub = [])"
| "contains (c # cs) sub = (startswith (c # cs) sub \<or> contains cs sub)"

fun split_on :: "char \<Rightarrow> string \<Rightarrow> string list" where
  \<comment> \<open>\<open>s.split(sep)\<close> for a separator of one character: never the empty list\<close>
  "split_on sep [] = [[]]"
| "split_on sep (c # cs) =
     (if c = sep then [] # split_on sep cs
      else (case split_on sep cs of l # ls \<Rightarrow> (c # l) # ls | [] \<Rightarrow> [[c]]))"

fun join :: "string \<Rightarrow> string list \<Rightarrow> string" where
  "join sep [] = []"
| "join sep [x] = x"
| "join sep (x # y # ys) = x @ sep @ join sep (y # ys)"

fun ws_tokens :: "string \<Rightarrow> string \<Rightarrow> string list" where
  \<comment> \<open>the token being read (reversed) and the rest of the input\<close>
  "ws_tokens cur [] = (if cur = [] then [] else [rev cur])"
| "ws_tokens cur (c # cs) =
     (if is_space c then (if cur = [] then ws_tokens [] cs else rev cur # ws_tokens [] cs)
      else ws_tokens (c # cur) cs)"

definition split_ws :: "string \<Rightarrow> string list" where
  \<comment> \<open>\<open>s.split()\<close>: the maximal runs of non-whitespace characters\<close>
  "split_ws s = ws_tokens [] s"

fun py_slice_to :: "int \<Rightarrow> 'a list \<Rightarrow> 'a list" where
  \<comment> \<open>\<open>xs[:n]\<close>; a negative \<open>n\<close> counts from the end\<close>
  "py_slice_to n xs = (if 0 \<le> n then take (nat n) xs else take (length xs - nat (- n)) xs)"

subsection \<open>Snippet extractor: quality score\<close>

definition is_comment_line :: "string \<Rightarrow> bool" where
  \<comment> \<open>\<open>line.strip().startswith(('#', '//', '/*'))\<close>\<close>
  "is_comment_line line =
     (let s = strip line in startswith s ''#'' \<or> startswith s ''//'' \<or> startswith s ''/*'')"

definition calculate_quality_score :: "string \<Rightarrow> string \<Rightarrow> real" where
  "calculate_quality_score content complexity =
     (let score = 7;
          lines = split_on NL content;
          score = (if 5 \<le> length lines \<and> length lines \<le> 50 then score + 1
                   else if length lines > 50 then score - 1 else score);
          score = (if complexity = ''low'' then score + 0.5
                   else if complexity = ''high'' then score - 0.5 else score);
          comment_lines = length (filter is_comment_line lines);
          comment_ratio = (if lines \<noteq> [] then real comment_lines / real (length lines) else 0);
          score = (if 0.1 \<le> comment_ratio \<and> comment_ratio \<le> 0.3 then score + 0.5
                   else if comment_ratio > 0.5 then score - 0.5 else score)
      in max 1 (min 10 score))"

text \<open>The scoring rule in the words of the specification, for comparison with the code.\<close>

definition line_count :: "string \<Rightarrow> nat" where
  "line_count content = length (split_on NL content)"

definition comment_line_ratio :: "string \<Rightarrow> real" where
  "comment_line_ratio content =
     real (length (filter is_comment_line (split_on NL content))) / real (line_count content)"

definition quality_rule :: "string \<Rightarrow> string \<Rightarrow> real" where
  "quality_rule content complexity =
     7 + (if 5 \<le> line_count content \<and> line_count content \<le> 50 then 1
          else if line_count content > 50 then - 1 else 0)
       + (if complexity = ''low'' then 0.5 else if complexity = ''high'' then - 0.5 else 0)
       + (if 0.1 \<le> comment_line_ratio content \<and> comment_line_ratio content \<le> 0.3 then 0.5
          else if comment_line_ratio content > 0.5 then - 0.5 else 0)"

subsection \<open>Query processor: normalization\<close>

fun collapse_ws :: "string \<Rightarrow> string" where
  \<comment> \<open>\<open>re.sub(r'\s+', ' ', s)\<close>: every maximal run of whitespace becomes one space\<close>
  "collapse_ws [] = []"
| "collapse_ws [c] = [if is_space c then CHR '' '' else c]"
| "collapse_ws (c # d # cs) =
     (if is_space c then (if is_space d then collapse_ws (d # cs) else CHR '' '' # collapse_ws (d # cs))
      else c # collapse_ws (d # cs))"

definition keeps :: "char \<Rightarrow> bool" where
  \<comment> \<open>the characters outside the class \<open>[^\w\s\-_\.]\<close>\<close>
  "keeps c = (is_word c \<or> is_space c \<or> c = CHR ''-'' \<or> c = CHR ''_'' \<or> c = CHR ''.'')"

definition blank_special :: "string \<Rightarrow> string" where
  \<comment> \<open>\<open>re.sub(r'[^\w\s\-_\.]', ' ', s)\<close>\<close>
  "blank_special s = map (\<lambda>c. if keeps c then c else CHR '' '') s"

definition normalize_query :: "string \<Rightarrow> string" where
  "normalize_query query =
     (let query = collapse_ws (strip query);
          query = lower query;
          query = blank_special query;
          query = collapse_ws (strip query)
      in query)"

subsection \<open>Embedding index: similarity lookup\<close>

text \<open>
  \<open>calculate_similarity\<close> divides by the norms with numpy: a zero norm gives NaN (written
  \<open>None\<close>, and never \<open>>= threshold\<close>); vectors of different lengths make \<open>np.dot\<close> raise,
  and the handler returns 0.0. The mapping from snippet IDs to embeddings is a Python dict:
  an association list in insertion order.
\<close>

definition vec_norm :: "real list \<Rightarrow> real" where
  "vec_norm v = sqrt (sum_list (map (\<lambda>x. x * x) v))"

definition vec_dot :: "real list \<Rightarrow> real list \<Rightarrow> real" where
  "vec_dot u v = sum_list (map (\<lambda>(x, y). x * y) (zip u v))"

definition calculate_similarity :: "real list \<Rightarrow> real list \<Rightarrow> real option" where
  "calculate_similarity embedding1 embedding2 =
     (if length embedding1 \<noteq> length embedding2 then Some 0
      else if embedding1 = [] then Some 0
      else if vec_norm embedding1 = 0 \<or> vec_norm embedding2 = 0 then None
      else Some (vec_dot (map (\<lambda>x. x / vec_norm embedding1) embedding1)
                         (map (\<lambda>y. y / vec_norm embedding2) embedding2)))"

definition similar_candidates :: "real list \<Rightarrow> (string \<times> real list) list \<Rightarrow> real \<Rightarrow> (string \<times> real) list" where
  "similar_candidates query_embedding snippet_embeddings threshold =
     concat (map (\<lambda>(snippet_id, embedding).
                    (case calculate_similarity query_embedding embedding of
                       Some similarity \<Rightarrow> if similarity \<ge> threshold then [(snippet_id, similarity)] else []
                     | None \<Rightarrow> []))
                 snippet_embeddings)"

definition sort_desc :: "('a \<Rightarrow> real) \<Rightarrow> 'a list \<Rightarrow> 'a list" where
  "sort_desc key xs = sort_key (\<lambda>x. - key x) xs"

definition find_similar_snippets ::
  "real list \<Rightarrow> (string \<times> real list) list \<Rightarrow> int \<Rightarrow> real \<Rightarrow> (string \<times> real) list" where
  "find_similar_snippets query_embedding snippet_embeddings top_k threshold =
     (let similarities = similar_candidates query_embedding snippet_embeddings threshold;
          similarities = sort_desc snd similarities
      in py_slice_to top_k similarities)"

text \<open>The order the specification asks for: descending score, ties by ascending snippet ID.\<close>

definition by_score_then_id :: "(string \<times> real) \<Rightarrow> (string \<times> real) \<Rightarrow> bool" where
  "by_score_then_id a b = (snd a > snd b \<or> (snd a = snd b \<and> fst a \<le> fst b))"

subsection \<open>Embedding index: hybrid strategy\<close>

text \<open>
  The two underlying strategies handle their own exceptions and return a vector or \<open>None\<close>;
  they are parameters. \<open>np.mean(embeddings, axis=0)\<close> raises on vectors of different lengths,
  and the handler of the hybrid strategy turns that into \<open>None\<close>.
\<close>

definition np_mean_axis0 :: "real list list \<Rightarrow> py_error + real list" where
  "np_mean_axis0 vs =
     (if \<exists>v \<in> set vs. length v \<noteq> length (hd vs) then Inl ValueError
      else Inr (map (\<lambda>j. sum_list (map (\<lambda>v. v ! j) vs) / real (length vs)) [0 ..< length (hd vs)]))"

definition generate_hybrid_embedding ::
  "('s \<Rightarrow> real list option) \<Rightarrow> ('s \<Rightarrow> real list option) \<Rightarrow> 's \<Rightarrow> real list option" where
  "generate_hybrid_embedding generate_codebert_embedding generate_sentence_embedding snippet =
     (let embeddings = [];
          codebert_emb = generate_codebert_embedding snippet;
          embeddings = (case codebert_emb of Some v \<Rightarrow> if v \<noteq> [] then embeddings @ [v] else embeddings
                        | None \<Rightarrow> embeddings);
          sentence_emb = generate_sentence_embedding snippet;
          embeddings = (case sentence_emb of Some v \<Rightarrow> if v \<noteq> [] then embeddings @ [v] else embeddings
                        | None \<Rightarrow> embeddings)
      in if embeddings = [] then None
         else if length embeddings = 1 then Some (hd embeddings)
         else (case np_mean_axis0 embeddings of Inr combined \<Rightarrow> Some combined | Inl e \<Rightarrow> None))"

definition get_embedding_dimension :: "string \<Rightarrow> nat" where
  "get_embedding_dimension model_type =
     (case map_of [(''codebert'', 768), (''graphcodebert'', 768), (''sentence'', 384), (''hybrid'', 768)]
             model_type of Some d \<Rightarrow> d | None \<Rightarrow> 768)"

definition vec_average :: "real list \<Rightarrow> real list \<Rightarrow> real list" where
  "vec_average u v = map (\<lambda>(x, y). (x + y) / 2) (zip u v)"

subsection \<open>Ranking engine: data model\<close>

text \<open>
  The fields of \<open>models/code_snippet.py\<close> and \<open>models/search_result.py\<close> that the ranking
  engine reads or writes. An \<open>Optional\<close> field is an option; a \<open>datetime\<close> is a number of
  microseconds, naive or timezone-aware (subtracting an aware value from \<open>utcnow()\<close> raises).
  The engine also probes a \<open>repository\<close> attribute on the snippet, which the snippet model
  does not declare: \<open>None\<close> stands for an absent or empty attribute.
\<close>

datatype code_type = FUNCTION | CLASS | METHOD | MODULE | VARIABLE | CONSTANT | IMPORT
  | COMMENT | DOCSTRING | SNIPPET

datatype complexity_level = LOW | MEDIUM | HIGH | VERY_HIGH

datatype search_intent = FIND_FUNCTION | FIND_CLASS | FIND_ALGORITHM | FIND_EXAMPLE
  | FIND_PATTERN | FIND_API | DEBUG_ERROR | LEARN_CONCEPT | COMPARE_IMPLEMENTATIONS

datatype datetime = Naive int | Aware int

fun code_type_value :: "code_type \<Rightarrow> string" where
  "code_type_value FUNCTION = ''function''"
| "code_type_value CLASS = ''class''"
| "code_type_value METHOD = ''method''"
| "code_type_value MODULE = ''module''"
| "code_type_value VARIABLE = ''variable''"
| "code_type_value CONSTANT = ''constant''"
| "code_type_value IMPORT = ''import''"
| "code_type_value COMMENT = ''comment''"
| "code_type_value DOCSTRING = ''docstring''"
| "code_type_value SNIPPET = ''snippet''"

fun complexity_level_value :: "complexity_level \<Rightarrow> string" where
  "complexity_level_value LOW = ''low''"
| "complexity_level_value MEDIUM = ''medium''"
| "complexity_level_value HIGH = ''high''"
| "complexity_level_value VERY_HIGH = ''very_high''"

fun search_intent_value :: "search_intent \<Rightarrow> string" where
  "search_intent_value FIND_FUNCTION = ''find_function''"
| "search_intent_value FIND_CLASS = ''find_class''"
| "search_intent_value FIND_ALGORITHM = ''find_algorithm''"
| "search_intent_value FIND_EXAMPLE = ''find_example''"
| "search_intent_value FIND_PATTERN = ''find_pattern''"
| "search_intent_value FIND_API = ''find_api''"
| "search_intent_value DEBUG_ERROR = ''debug_error''"
| "search_intent_value LEARN_CONCEPT = ''learn_concept''"
| "search_intent_value COMPARE_IMPLEMENTATIONS = ''compare_implementations''"

record repository =
  stars :: int

record code_snippet =
  repository_id :: string
  cs_content :: string
  cs_language :: string
  code_type :: code_type
  cs_name :: "string option"
  parameters :: "string list option"
  return_type :: "string option"
  docstring :: "string option"
  complexity_score :: real
  complexity_level :: complexity_level
  cs_quality_score :: real
  readability_score :: real
  cs_keywords :: "string list"
  usage_count :: int
  created_at :: "datetime option"
  cs_repository :: "repository option"

record search_result =
  snippet :: code_snippet
  similarity_score :: real
  relevance_score :: real
  quality_boost :: real
  popularity_boost :: real
  recency_boost :: real
  documentation_boost :: real
  view_count :: int

record search_query =
  query_text :: string
  intent :: "search_intent option"
  languages :: "string list"
  repositories :: "string list"
  complexity_levels :: "string list"
  expand_query :: bool
  query_keywords :: "string list"
  query_topics :: "string list"

definition truthy :: "string option \<Rightarrow> bool" where
  \<comment> \<open>the truth value of an \<open>Optional[str]\<close>\<close>
  "truthy s = (case s of None \<Rightarrow> False | Some v \<Rightarrow> v \<noteq> [])"

definition SEARCH_WEIGHTS :: "string \<rightharpoonup> real" where
  "SEARCH_WEIGHTS = map_of
     [(''semantic_similarity'', 0.4), (''keyword_match'', 0.3), (''code_quality'', 0.1),
      (''popularity'', 0.1), (''recency'', 0.05), (''documentation'', 0.05)]"

subsection \<open>Ranking engine: sub-scores\<close>

definition calculate_keyword_score :: "search_result \<Rightarrow> search_query \<Rightarrow> real" where
  "calculate_keyword_score result query =
     (if query_keywords query = [] then 0
      else
        let snippet_keywords = set (cs_keywords (snippet result));
            query_kws = remdups (query_keywords query);
            overlap = length (filter (\<lambda>k. k \<in> snippet_keywords) query_kws);
            total_query_keywords = length query_kws;
            content_lower = lower (cs_content (snippet result));
            content_matches = length (filter (\<lambda>keyword. contains content_lower (lower keyword)) query_kws);
            keyword_score = (real overlap + real content_matches * 0.5) / (real total_query_keywords * 1.5)
        in min keyword_score 1)"

definition ranking_quality_score :: "search_result \<Rightarrow> real" where
  \<comment> \<open>\<open>RankingEngine._calculate_quality_score\<close>\<close>
  "ranking_quality_score result =
     (let base_quality = cs_quality_score (snippet result);
          complexity_penalty =
            (if complexity_score (snippet result) > 15
             then min ((complexity_score (snippet result) - 15) / 20) 0.3 else 0);
          readability_bonus = readability_score (snippet result) * 0.2;
          doc_bonus = (if truthy (docstring (snippet result)) then 0.1 else 0);
          quality_score = base_quality - complexity_penalty + readability_bonus + doc_bonus
      in max (min quality_score 1) 0)"

definition calculate_popularity_score :: "search_result \<Rightarrow> real" where
  "calculate_popularity_score result =
     (let repo_popularity =
            (case cs_repository (snippet result) of
               None \<Rightarrow> 0
             | Some repo \<Rightarrow> if stars repo > 0 then min (log 10 (real_of_int (stars repo) + 1) / 5) 1 else 0);
          usage_score = min (real_of_int (usage_count (snippet result)) / 100) 1;
          view_score = min (real_of_int (view_count result) / 50) 1
      in repo_popularity * 0.5 + usage_score * 0.3 + view_score * 0.2)"

definition calculate_recency_score :: "int \<Rightarrow> search_result \<Rightarrow> real" where
  \<comment> \<open>the first argument is \<open>datetime.utcnow()\<close>, in microseconds\<close>
  "calculate_recency_score now result =
     (case created_at (snippet result) of
        None \<Rightarrow> 0.5
      | Some (Aware t) \<Rightarrow> 0.5
      | Some (Naive t) \<Rightarrow>
          let days_old = (now - t) div 86400000000
          in if days_old \<le> 30 then 1
             else if days_old \<le> 90 then 0.8
             else if days_old \<le> 365 then 0.6
             else if days_old \<le> 730 then 0.4
             else 0.2)"

definition is_doc_comment_line :: "string \<Rightarrow> bool" where
  \<comment> \<open>\<open>line.strip().startswith(('#', '//', '/*', '*/'))\<close>\<close>
  "is_doc_comment_line line =
     (let s = strip line
      in startswith s ''#'' \<or> startswith s ''//'' \<or> startswith s ''/*'' \<or> startswith s ''*/'')"

definition calculate_documentation_score :: "search_result \<Rightarrow> real" where
  "calculate_documentation_score result =
     (let doc_score = 0;
          doc_score = (if truthy (docstring (snippet result)) then doc_score + 0.4 else doc_score);
          doc_score = (case cs_name (snippet result) of
                         Some n \<Rightarrow> if length n > 2 then doc_score + 0.2 else doc_score
                       | None \<Rightarrow> doc_score);
          doc_score = (case parameters (snippet result) of
                         Some ps \<Rightarrow> if length ps > 0 then doc_score + 0.2 else doc_score
                       | None \<Rightarrow> doc_score);
          doc_score = (if truthy (return_type (snippet result)) then doc_score + 0.1 else doc_score);
          content = cs_content (snippet result);
          comment_lines = length (filter is_doc_comment_line (split_on NL content));
          total_lines = length (split_on NL content);
          doc_score = (if total_lines > 0
                       then doc_score + min (real comment_lines / real total_lines * 0.3) 0.1
                       else doc_score)
      in min doc_score 1)"

subsection \<open>Ranking engine: relevance score, boosts and ranking\<close>

definition weight :: "(string \<rightharpoonup> real) \<Rightarrow> string \<Rightarrow> py_error + real" where
  \<comment> \<open>\<open>self.weights[key]\<close>\<close>
  "weight weights key = (case weights key of None \<Rightarrow> Inl KeyError | Some w \<Rightarrow> Inr w)"

definition weighted_sum :: "(string \<rightharpoonup> real) \<Rightarrow> int \<Rightarrow> search_result \<Rightarrow> search_query \<Rightarrow> py_error + real" where
  \<comment> \<open>the weights are looked up from left to right; the first missing key raises\<close>
  "weighted_sum weights now result query =
     (case weight weights ''semantic_similarity'' of Inl e \<Rightarrow> Inl e | Inr w_sem \<Rightarrow>
      case weight weights ''keyword_match'' of Inl e \<Rightarrow> Inl e | Inr w_kw \<Rightarrow>
      case weight weights ''code_quality'' of Inl e \<Rightarrow> Inl e | Inr w_q \<Rightarrow>
      case weight weights ''popularity'' of Inl e \<Rightarrow> Inl e | Inr w_pop \<Rightarrow>
      case weight weights ''recency'' of Inl e \<Rightarrow> Inl e | Inr w_rec \<Rightarrow>
      case weight weights ''documentation'' of Inl e \<Rightarrow> Inl e | Inr w_doc \<Rightarrow>
        Inr (similarity_score result * w_sem
             + calculate_keyword_score result query * w_kw
             + ranking_quality_score result * w_q
             + calculate_popularity_score result * w_pop
             + calculate_recency_score now result * w_rec
             + calculate_documentation_score result * w_doc))"

definition calculate_relevance_score :: "(string \<rightharpoonup> real) \<Rightarrow> int \<Rightarrow> search_result \<Rightarrow> search_query \<Rightarrow> real" where
  "calculate_relevance_score weights now result query =
     (case weighted_sum weights now result query of
        Inr final_score \<Rightarrow>
          let final_score = final_score * quality_boost result;
              final_score = final_score * popularity_boost result;
              final_score = final_score * recency_boost result;
              final_score = final_score * documentation_boost result
          in min final_score 1
      | Inl e \<Rightarrow> similarity_score result)"

definition rank_results :: "(string \<rightharpoonup> real) \<Rightarrow> int \<Rightarrow> search_result list \<Rightarrow> search_query \<Rightarrow> search_result list" where
  "rank_results weights now results query =
     (let results = map (\<lambda>result. result\<lparr>relevance_score :=
                           calculate_relevance_score weights now result query\<rparr>) results
      in sort_desc relevance_score results)"

definition get_intent_boost :: "search_result \<Rightarrow> search_intent \<Rightarrow> real" where
  "get_intent_boost result i =
     (let s = snippet result;
          intent_boosts =
            [(''find_function'', if code_type_value (code_type s) \<in> {''function'', ''method''} then 1.2 else 0.8),
             (''find_class'', if code_type_value (code_type s) = ''class'' then 1.2 else 0.8),
             (''find_algorithm'', if ''algorithm'' \<in> set (cs_keywords s) then 1.3 else 1),
             (''find_example'', if truthy (docstring s) then 1.1 else 1),
             (''find_pattern'', if length (cs_keywords s) > 3 then 1.2 else 1),
             (''find_api'', if ''api'' \<in> set (cs_keywords s) then 1.2 else 1),
             (''debug_error'', if ''error'' \<in> set (cs_keywords s) \<or> ''exception'' \<in> set (cs_keywords s) then 1.1 else 1),
             (''learn_concept'', if truthy (docstring s) then 1.2 else 1),
             (''compare_implementations'', if complexity_score s > 5 then 1.1 else 1)]
      in case map_of intent_boosts (search_intent_value i) of Some b \<Rightarrow> b | None \<Rightarrow> 1)"

definition apply_boost :: "search_query \<Rightarrow> search_result \<Rightarrow> search_result" where
  \<comment> \<open>the body of the loop of \<open>apply_boosts\<close>; \<open>qb\<close> is \<open>result.quality_boost\<close>\<close>
  "apply_boost query result =
     (let qb = quality_boost result;
          qb = (if languages query \<noteq> [] \<and> cs_language (snippet result) \<in> set (languages query)
                then qb * 1.2 else qb);
          qb = (if repositories query \<noteq> [] \<and> repository_id (snippet result) \<in> set (repositories query)
                then qb * 1.1 else qb);
          qb = (case intent query of Some i \<Rightarrow> qb * get_intent_boost result i | None \<Rightarrow> qb);
          qb = (if complexity_levels query \<noteq> []
                   \<and> complexity_level_value (complexity_level (snippet result)) \<in> set (complexity_levels query)
                then qb * 1.1 else qb)
      in result\<lparr>quality_boost := min qb 2,
                popularity_boost := min (popularity_boost result) 1.5,
                recency_boost := min (recency_boost result) 1.3,
                documentation_boost := min (documentation_boost result) 1.2\<rparr>)"

definition apply_boosts :: "search_result list \<Rightarrow> search_query \<Rightarrow> search_result list" where
  "apply_boosts results query = map (apply_boost query) results"

text \<open>The final score in the words of the specification.\<close>

definition base_score :: "(string \<rightharpoonup> real) \<Rightarrow> int \<Rightarrow> search_result \<Rightarrow> search_query \<Rightarrow> real" where
  "base_score weights now result query =
       similarity_score result * the (weights ''semantic_similarity'')
     + calculate_keyword_score result query * the (weights ''keyword_match'')
     + ranking_quality_score result * the (weights ''code_quality'')
     + calculate_popularity_score result * the (weights ''popularity'')
     + calculate_recency_score now result * the (weights ''recency'')
     + calculate_documentation_score result * the (weights ''documentation'')"

definition weight_keys :: "string set" where
  "weight_keys = {''semantic_similarity'', ''keyword_match'', ''code_quality'', ''popularity'',
                  ''recency'', ''documentation''}"

text \<open>A concrete result and query, used to exercise the ranking engine.\<close>

definition example_snippet :: code_snippet where
  "example_snippet =
     \<lparr>repository_id = ''repo-1'',
      cs_content = ''def sort(a):'' @ [NL] @ ''    return sorted(a)'',
      cs_language = ''python'', code_type = FUNCTION, cs_name = Some ''sort'',
      parameters = Some [''a''], return_type = None, docstring = Some ''Sort a list'',
      complexity_score = 1, complexity_level = LOW, cs_quality_score = 0.8,
      readability_score = 0.5, cs_keywords = [''sort'', ''algorithm''], usage_count = 10,
      created_at = Some (Naive 0), cs_repository = None\<rparr>"

definition example_result :: search_result where
  "example_result =
     \<lparr>snippet = example_snippet, similarity_score = 0.1, relevance_score = 0,
      quality_boost = 1, popularity_boost = 2, recency_boost = 1, documentation_boost = 1,
      view_count = 5\<rparr>"

definition example_query :: search_query where
  "example_query =
     \<lparr>query_text = ''sort'', intent = Some FIND_CLASS, languages = [], repositories = [],
      complexity_levels = [], expand_query = True, query_keywords = [''sort''], query_topics = []\<rparr>"

subsection \<open>Search orchestrator: snippets and lexical score\<close>

text \<open>
  The \<open>CodeSnippet\<close> dataclass of \<open>indexing/code_parser.py\<close> and the \<open>SearchResult\<close>
  dataclass of \<open>search/semantic_search.py\<close>.
\<close>

record parsed_snippet =
  sn_id :: string
  sn_content :: string
  sn_language :: string
  sn_file_path :: string
  sn_line_start :: nat
  sn_line_end :: nat
  sn_name :: string
  sn_type :: string
  sn_complexity :: string
  sn_quality_score :: real
  sn_tags :: "string list"
  sn_description :: string

record lexical_result =
  lr_snippet :: parsed_snippet
  lr_score :: real
  match_type :: string
  highlighted_content :: string

definition lexical_relevance_score :: "parsed_snippet \<Rightarrow> string \<Rightarrow> real" where
  \<comment> \<open>\<open>SemanticSearch._calculate_relevance_score\<close>; the caller passes the lowercased query\<close>
  "lexical_relevance_score s query =
     (let score = 0;
          content_lower = lower (sn_content s);
          score = (if contains content_lower query then score + 0.8 else score);
          score = (if contains (lower (sn_name s)) query then score + 0.9 else score);
          score = (if contains (lower (sn_description s)) query then score + 0.7 else score);
          score = foldl (\<lambda>score tag. if contains (lower tag) query then score + 0.6 else score)
                    score (sn_tags s);
          score = (if contains (lower (sn_language s)) query then score + 0.5 else score);
          score = (if contains (lower (sn_type s)) query then score + 0.4 else score);
          score = (if contains (lower (sn_file_path s)) query then score + 0.3 else score);
          score = foldl (\<lambda>score keyword.
                           let score = (if contains content_lower keyword then score + 0.1 else score);
                               score = (if contains (lower (sn_name s)) keyword then score + 0.2 else score);
                               score = (if contains (lower (sn_description s)) keyword
                                        then score + 0.15 else score)
                           in score)
                    score (split_ws query);
          score = score + sn_quality_score s * 0.01
      in min 1 score)"

definition determine_match_type :: "parsed_snippet \<Rightarrow> string \<Rightarrow> string" where
  "determine_match_type s query =
     (if contains (lower (sn_name s)) query then ''exact_name''
      else if contains (lower (sn_content s)) query then ''content_match''
      else if contains (lower (sn_description s)) query then ''description_match''
      else if \<exists>tag \<in> set (sn_tags s). contains (lower tag) query then ''tag_match''
      else ''keyword_match'')"

text \<open>The additive rule in the words of the specification.\<close>

definition hit :: "string \<Rightarrow> string \<Rightarrow> real \<Rightarrow> real" where
  \<comment> \<open>the bonus when the (lowercased) query text occurs in the lowercased field\<close>
  "hit field q bonus = (if contains (lower field) q then bonus else 0)"

definition lexical_rule :: "parsed_snippet \<Rightarrow> string \<Rightarrow> real" where
  "lexical_rule s q =
       hit (sn_content s) q 0.8 + hit (sn_name s) q 0.9 + hit (sn_description s) q 0.7
     + (\<Sum>tag \<leftarrow> sn_tags s. hit tag q 0.6)
     + hit (sn_language s) q 0.5 + hit (sn_type s) q 0.4 + hit (sn_file_path s) q 0.3
     + (\<Sum>token \<leftarrow> split_ws q.
          hit (sn_content s) token 0.1 + hit (sn_name s) token 0.2 + hit (sn_description s) token 0.15)
     + sn_quality_score s * 0.01"

subsection \<open>Search orchestrator: highlighting\<close>

text \<open>
  \<open>pattern.sub(f'<mark>{part}</mark>', highlighted)\<close> hands the token to the \<open>re\<close> module as
  a replacement template. The template is parsed before any match is replaced: a backslash
  starts an escape, and a malformed escape raises \<open>re.error\<close>. The pattern is an escaped
  literal and has no groups, so the only valid group reference is \<open>\g<0>\<close>, the whole match.
\<close>

datatype template_item = TLit char | TMatch

definition is_digit :: "char \<Rightarrow> bool" where
  "is_digit c = (48 \<le> (of_char c :: nat) \<and> (of_char c :: nat) \<le> 57)"

definition is_octdigit :: "char \<Rightarrow> bool" where
  "is_octdigit c = (48 \<le> (of_char c :: nat) \<and> (of_char c :: nat) \<le> 55)"

definition is_ascii_letter :: "char \<Rightarrow> bool" where
  "is_ascii_letter c = (let n = of_char c :: nat in (65 \<le> n \<and> n \<le> 90) \<or> (97 \<le> n \<and> n \<le> 122))"

definition is_ident_continue :: "char \<Rightarrow> bool" where
  \<comment> \<open>the characters of \<open>str.isidentifier\<close>\<close>
  "is_ident_continue c =
     ((is_word c \<and> (of_char c :: nat) \<notin> {178, 179, 185, 188, 189, 190}) \<or> (of_char c :: nat) = 183)"

definition is_ident_start :: "char \<Rightarrow> bool" where
  "is_ident_start c = (is_ident_continue c \<and> \<not> is_digit c \<and> (of_char c :: nat) \<noteq> 183)"

definition digit_val :: "char \<Rightarrow> nat" where
  "digit_val c = of_char c - 48"

definition template_escape :: "string \<Rightarrow> py_error + (template_item list \<times> nat)" where
  \<comment> \<open>the characters after a backslash; returns the items of the escape and how many of
      these characters it uses\<close>
  "template_escape cs =
     (case cs of
        [] \<Rightarrow> Inl ReError
      | c # rest \<Rightarrow>
          if c = CHR ''g'' then
            (case rest of
               [] \<Rightarrow> Inl ReError
             | l # rest' \<Rightarrow>
                 if l \<noteq> CHR ''<'' then Inl ReError
                 else let name = takeWhile (\<lambda>x. x \<noteq> CHR ''>'') rest'
                      in if length name = length rest' \<or> name = [] then Inl ReError
                         else if is_ident_start (hd name) \<and> list_all is_ident_continue name
                           then Inl IndexError
                         else if list_all (\<lambda>x. x = CHR ''0'') name then Inr ([TMatch], length name + 3)
                         else Inl ReError)
          else if c = CHR ''0'' then
            (case rest of
               d1 # d2 # _ \<Rightarrow>
                 if is_octdigit d1 \<and> is_octdigit d2
                   then Inr ([TLit (char_of ((digit_val d1 * 8 + digit_val d2) mod 256))], 3)
                 else if is_octdigit d1 then Inr ([TLit (char_of (digit_val d1))], 2)
                 else Inr ([TLit (char_of (0::nat))], 1)
             | [d1] \<Rightarrow> if is_octdigit d1 then Inr ([TLit (char_of (digit_val d1))], 2)
                        else Inr ([TLit (char_of (0::nat))], 1)
             | [] \<Rightarrow> Inr ([TLit (char_of (0::nat))], 1))
          else if is_digit c then
            (case rest of
               d1 # d2 # _ \<Rightarrow>
                 if is_octdigit c \<and> is_octdigit d1 \<and> is_octdigit d2
                   then (let v = digit_val c * 64 + digit_val d1 * 8 + digit_val d2
                         in if v > 255 then Inl ReError else Inr ([TLit (char_of v)], 3))
                 else Inl ReError
             | _ \<Rightarrow> Inl ReError)
          else if c = CHR ''a'' then Inr ([TLit (char_of (7::nat))], 1)
          else if c = CHR ''b'' then Inr ([TLit (char_of (8::nat))], 1)
          else if c = CHR ''f'' then Inr ([TLit (char_of (12::nat))], 1)
          else if c = CHR ''n'' then Inr ([TLit (char_of (10::nat))], 1)
          else if c = CHR ''r'' then Inr ([TLit (char_of (13::nat))], 1)
          else if c = CHR ''t'' then Inr ([TLit (char_of (9::nat))], 1)
          else if c = CHR ''v'' then Inr ([TLit (char_of (11::nat))], 1)
          else if c = CHR 0x5C then Inr ([TLit (CHR 0x5C)], 1)
          else if is_ascii_letter c then Inl ReError
          else Inr ([TLit (CHR 0x5C), TLit c], 1))"

fun parse_template :: "nat \<Rightarrow> string \<Rightarrow> py_error + template_item list" where
  \<comment> \<open>the first argument counts the characters still to skip, used up by an escape\<close>
  "parse_template skip [] = Inr []"
| "parse_template (Suc n) (c # cs) = parse_template n cs"
| "parse_template 0 (c # cs) =
     (if c \<noteq> CHR 0x5C then
        (case parse_template 0 cs of Inl e \<Rightarrow> Inl e | Inr items \<Rightarrow> Inr (TLit c # items))
      else
        (case template_escape cs of
           Inl e \<Rightarrow> Inl e
         | Inr (esc, used) \<Rightarrow>
             (case parse_template used cs of Inl e \<Rightarrow> Inl e | Inr items \<Rightarrow> Inr (esc @ items))))"

definition expand_template :: "template_item list \<Rightarrow> string \<Rightarrow> string" where
  "expand_template items matched =
     concat (map (\<lambda>item. case item of TLit c \<Rightarrow> [c] | TMatch \<Rightarrow> matched) items)"

fun matches_at :: "string \<Rightarrow> string \<Rightarrow> bool" where
  \<comment> \<open>the escaped literal matches at the head of the text, ignoring case\<close>
  "matches_at [] text = True"
| "matches_at (p # ps) [] = False"
| "matches_at (p # ps) (c # cs) = (lower_char p = lower_char c \<and> matches_at ps cs)"

fun sub_literal :: "nat \<Rightarrow> string \<Rightarrow> (string \<Rightarrow> string) \<Rightarrow> string \<Rightarrow> string" where
  \<comment> \<open>replaces the non-overlapping matches from left to right; the first argument counts
      the characters of the current match still to skip\<close>
  "sub_literal skip pat repl [] = []"
| "sub_literal (Suc n) pat repl (c # cs) = sub_literal n pat repl cs"
| "sub_literal 0 pat repl (c # cs) =
     (if matches_at pat (c # cs)
      then repl (take (length pat) (c # cs)) @ sub_literal (length pat - 1) pat repl cs
      else c # sub_literal 0 pat repl cs)"

definition highlight_part :: "string \<Rightarrow> string \<Rightarrow> py_error + string" where
  \<comment> \<open>one round of the loop of \<open>_highlight_matches\<close>, for a token longer than 2 characters\<close>
  "highlight_part part highlighted =
     (case parse_template 0 (''<mark>'' @ part @ ''</mark>'') of
        Inl e \<Rightarrow> Inl e
      | Inr items \<Rightarrow> Inr (sub_literal 0 part (expand_template items) highlighted))"

fun highlight_parts :: "string list \<Rightarrow> string \<Rightarrow> py_error + string" where
  "highlight_parts [] highlighted = Inr highlighted"
| "highlight_parts (part # parts) highlighted =
     (if length part > 2
      then (case highlight_part part highlighted of
              Inl e \<Rightarrow> Inl e
            | Inr h \<Rightarrow> highlight_parts parts h)
      else highlight_parts parts highlighted)"

definition highlight_matches :: "string \<Rightarrow> string \<Rightarrow> py_error + string" where
  "highlight_matches content query =
     (if query = [] then Inr content else highlight_parts (split_ws query) content)"

subsection \<open>Search orchestrator: search\<close>

fun search_loop :: "parsed_snippet list \<Rightarrow> string \<Rightarrow> real \<Rightarrow> py_error + lexical_result list" where
  \<comment> \<open>the loop over the indexed snippets; an exception of the highlighter leaves the loop\<close>
  "search_loop [] query_lower similarity_threshold = Inr []"
| "search_loop (s # rest) query_lower similarity_threshold =
     (let score = lexical_relevance_score s query_lower
      in if score \<ge> similarity_threshold then
           (case highlight_matches (sn_content s) query_lower of
              Inl e \<Rightarrow> Inl e
            | Inr highlighted \<Rightarrow>
                (case search_loop rest query_lower similarity_threshold of
                   Inl e \<Rightarrow> Inl e
                 | Inr results \<Rightarrow>
                     Inr (\<lparr>lr_snippet = s, lr_score = score,
                           match_type = determine_match_type s query_lower,
                           highlighted_content = highlighted\<rparr> # results)))
         else search_loop rest query_lower similarity_threshold)"

definition search :: "parsed_snippet list \<Rightarrow> string \<Rightarrow> int \<Rightarrow> real \<Rightarrow> py_error + lexical_result list" where
  \<comment> \<open>the first argument is \<open>self.indexed_snippets\<close>\<close>
  "search indexed_snippets query max_results similarity_threshold =
     (if indexed_snippets = [] then Inr []
      else
        let query_lower = lower query
        in case search_loop indexed_snippets query_lower similarity_threshold of
             Inl e \<Rightarrow> Inl e
           | Inr results \<Rightarrow> Inr (py_slice_to max_results (sort_desc lr_score results)))"

definition strip_marks :: "string \<Rightarrow> string" where
  \<comment> \<open>the text with every marker removed\<close>
  "strip_marks s = sub_literal 0 ''</mark>'' (\<lambda>m. []) (sub_literal 0 ''<mark>'' (\<lambda>m. []) s)"

text \<open>Two snippets of a corpus, used to exercise the orchestrator.\<close>

definition digits_snippet :: parsed_snippet where
  "digits_snippet =
     \<lparr>sn_id = ''sample_code/utils.js:1:1'',
      sn_content = ''const digits = /'' @ [CHR 0x5C] @ ''d+/;'',
      sn_language = ''javascript'', sn_file_path = ''sample_code/utils.js'',
      sn_line_start = 1, sn_line_end = 1, sn_name = ''code_block_1'', sn_type = ''block'',
      sn_complexity = ''low'', sn_quality_score = 7.5, sn_tags = [''javascript''],
      sn_description = ''Code block starting at line 1''\<rparr>"

definition bubble_sort_snippet :: parsed_snippet where
  "bubble_sort_snippet =
     \<lparr>sn_id = ''sample_code/algorithms.py:1:2'',
      sn_content = ''def bubbleSort(arr):'' @ [NL] @ ''    return sorted(arr)'',
      sn_language = ''python'', sn_file_path = ''sample_code/algorithms.py'',
      sn_line_start = 1, sn_line_end = 2, sn_name = ''bubbleSort'', sn_type = ''function'',
      sn_complexity = ''low'', sn_quality_score = 7.5, sn_tags = [''python'', ''algorithm''],
      sn_description = ''Function bubbleSort''\<rparr>"

section \<open>Properties\<close>

subsection \<open>Python strings\<close>

lemma split_on_nonempty: "split_on sep s \<noteq> []"
  by (induction s) (auto split: list.splits)

lemmas char_eval = is_space_def is_upper_def is_word_def lower_char_def char_of_def bit_0

subsection \<open>Snippet extractor: quality score\<close>

lemma quality_score_refines_rule:
  "calculate_quality_score content complexity = max 1 (min 10 (quality_rule content complexity))"
  unfolding calculate_quality_score_def quality_rule_def comment_line_ratio_def line_count_def Let_def
  using split_on_nonempty [of NL content] by auto

lemma quality_rule_bounds: "5 \<le> quality_rule content complexity \<and> quality_rule content complexity \<le> 9"
  unfolding quality_rule_def by auto

text \<open>
  C7. For every snippet content and complexity level the extractor's quality score is 7.0,
  plus 1.0 for a line count in [5,50] or minus 1.0 for more than 50 lines, plus 0.5 for low or
  minus 0.5 for high complexity, plus 0.5 for a comment-line ratio in [0.1,0.3] or minus 0.5
  for a ratio above 0.5, clamped to [1.0,10.0]; so it always lies within [1.0,10.0].
\<close>

theorem quality_score_formula:
  "calculate_quality_score content complexity = max 1 (min 10 (quality_rule content complexity))
   \<and> 1 \<le> calculate_quality_score content complexity
   \<and> calculate_quality_score content complexity \<le> 10"
  using quality_score_refines_rule [of content complexity] by auto

theorem quality_score_formula_witness:
  "calculate_quality_score (''# sort'' @ [NL] @ ''def f(x):'' @ [NL] @ ''    return x'') ''low'' = 7.5
   \<and> quality_rule (''# sort'' @ [NL] @ ''def f(x):'' @ [NL] @ ''    return x'') ''low'' = 7.5"
  using quality_score_formula [of "''# sort'' @ [NL] @ ''def f(x):'' @ [NL] @ ''    return x''" "''low''"]
  by (simp add: quality_rule_def line_count_def comment_line_ratio_def is_comment_line_def
      strip_def lstrip_def rstrip_def char_eval)

subsection \<open>Query processor: normalization\<close>

lemma is_space_blank: "is_space CHR '' ''" by (simp add: is_space_def)

lemma collapse_nonspace: "\<not> is_space c \<Longrightarrow> collapse_ws (c # cs) = c # collapse_ws cs"
  by (cases cs) auto

lemma collapse_space: "is_space c \<Longrightarrow> collapse_ws (c # cs) = CHR '' '' # collapse_ws (dropWhile is_space cs)"
  by (induction cs arbitrary: c) (auto simp add: collapse_nonspace)

lemma collapse_idem: "collapse_ws (collapse_ws s) = collapse_ws s"
proof (induction s rule: length_induct)
  case (1 s)
  show ?case
  proof (cases s)
    case Nil then show ?thesis by simp
  next
    case (Cons c cs)
    show ?thesis
    proof (cases "is_space c")
      case True
      let ?r = "dropWhile is_space cs"
      have len: "length ?r < length s" using Cons by (simp add: length_dropWhile_le le_imp_less_Suc)
      have ih: "collapse_ws (collapse_ws ?r) = collapse_ws ?r" using 1 len by blast
      have nsp: "dropWhile is_space (collapse_ws ?r) = collapse_ws ?r"
      proof (cases ?r)
        case Nil then show ?thesis by (simp only: collapse_ws.simps dropWhile.simps)
      next
        case (Cons d ds)
        then have "\<not> is_space d" by (metis hd_dropWhile list.sel(1) list.distinct(1))
        then show ?thesis using Cons by (simp add: collapse_nonspace)
      qed
      show ?thesis using True Cons ih nsp by (simp add: collapse_space is_space_blank)
    next
      case False
      then show ?thesis using Cons 1 by (simp add: collapse_nonspace)
    qed
  qed
qed

lemma set_collapse: "set (collapse_ws s) \<subseteq> insert CHR '' '' (set s)"
  by (induction s rule: collapse_ws.induct) auto

lemma set_strip: "set (strip s) \<subseteq> set s"
  unfolding strip_def rstrip_def lstrip_def
  by (metis set_dropWhileD set_rev subsetI)

lemma dropWhile_hd: "xs \<noteq> [] \<Longrightarrow> \<not> P (hd xs) \<Longrightarrow> dropWhile P xs = xs"
  by (cases xs) auto

lemma strip_fix:
  assumes "s = [] \<or> (\<not> is_space (hd s) \<and> \<not> is_space (last s))"
  shows "strip s = s"
proof (cases "s = []")
  case True
  then show ?thesis by (simp add: strip_def rstrip_def lstrip_def)
next
  case False
  then have h: "\<not> is_space (hd s)" and l: "\<not> is_space (last s)" using assms by auto
  have a: "dropWhile is_space s = s" using False h by (rule dropWhile_hd)
  have "rev s \<noteq> []" using False by simp
  moreover have "\<not> is_space (hd (rev s))" using l False by (simp add: hd_rev)
  ultimately have b: "dropWhile is_space (rev s) = rev s" by (rule dropWhile_hd)
  show ?thesis by (simp add: strip_def rstrip_def lstrip_def a b)
qed

lemma strip_ends: "strip s = [] \<or> (\<not> is_space (hd (strip s)) \<and> \<not> is_space (last (strip s)))"
proof (cases "strip s = []")
  case True then show ?thesis by simp
next
  case False
  let ?l = "dropWhile is_space s"
  let ?r = "dropWhile is_space (rev ?l)"
  have st: "strip s = rev ?r" by (simp add: strip_def rstrip_def lstrip_def)
  have rne: "?r \<noteq> []" using False st by simp
  have lastok: "\<not> is_space (last (strip s))" using rne st by (simp add: last_rev hd_dropWhile)
  have lne: "?l \<noteq> []"
  proof
    assume a: "?l = []"
    have "?r = []" unfolding a by simp
    with rne show False by contradiction
  qed
  have hl: "\<not> is_space (hd ?l)" using lne by (rule hd_dropWhile)
  have "?l = rev ?r @ rev (takeWhile is_space (rev ?l))"
    by (metis rev_append rev_rev_ident takeWhile_dropWhile_id)
  then have "hd ?l = hd (rev ?r)" using rne by (metis hd_append2 rev_is_Nil_conv)
  then have "\<not> is_space (hd (strip s))" using hl st by simp
  then show ?thesis using lastok by simp
qed

lemma collapse_last:
  "s \<noteq> [] \<Longrightarrow> \<not> is_space (last s) \<Longrightarrow> collapse_ws s \<noteq> [] \<and> last (collapse_ws s) = last s"
  by (induction s rule: collapse_ws.induct) auto

lemma collapse_hd: "s \<noteq> [] \<Longrightarrow> \<not> is_space (hd s) \<Longrightarrow> hd (collapse_ws s) = hd s"
  by (cases s) (auto simp add: collapse_nonspace)

lemma tidy_fix: "collapse_ws (strip (collapse_ws (strip x))) = collapse_ws (strip x)"
proof -
  let ?t = "collapse_ws (strip x)"
  have "strip ?t = ?t"
  proof (cases "strip x = []")
    case True
    have t: "?t = []" unfolding True by simp
    have "strip [] = []" by (simp add: strip_def rstrip_def lstrip_def)
    then show ?thesis unfolding t .
  next
    case False
    then have e: "\<not> is_space (hd (strip x))" "\<not> is_space (last (strip x))"
      using strip_ends [of x] by auto
    have "?t \<noteq> []" "last ?t = last (strip x)" using collapse_last [OF False e(2)] by auto
    moreover have "hd ?t = hd (strip x)" using collapse_hd [OF False e(1)] .
    ultimately show ?thesis using e by (intro strip_fix) simp
  qed
  then show ?thesis by (simp add: collapse_idem)
qed

lemma lower_char_fix: "lower_char (lower_char c) = lower_char c"
proof -
  have "\<not> is_upper (lower_char c)"
    by (auto simp add: lower_char_def is_upper_def Let_def)
  then show ?thesis by (simp add: lower_char_def)
qed

lemma normalized_chars:
  assumes "c \<in> set (normalize_query q)"
  shows "lower_char c = c \<and> keeps c"
proof -
  let ?y = "collapse_ws (strip q)"
  have "c \<in> insert CHR '' '' (set (blank_special (lower ?y)))"
    using assms set_collapse set_strip unfolding normalize_query_def Let_def by blast
  moreover have "lower_char CHR '' '' = CHR '' ''" "keeps CHR '' ''"
    by (simp_all add: keeps_def char_eval)
  moreover have "lower_char d = d \<and> keeps d" if "d \<in> set (blank_special (lower ?y))" for d
    using that \<open>lower_char CHR '' '' = CHR '' ''\<close> \<open>keeps CHR '' ''\<close>
    by (auto simp add: blank_special_def lower_def lower_char_fix split: if_splits)
  ultimately show ?thesis by auto
qed

text \<open>
  C8. Query normalization is idempotent: normalizing an already normalized query (collapse
  whitespace, lowercase, blank the characters outside word characters, whitespace, hyphen,
  underscore and dot, collapse whitespace again) returns it unchanged.
\<close>

theorem normalize_query_idempotent: "normalize_query (normalize_query q) = normalize_query q"
proof -
  let ?r = "normalize_query q"
  have f: "collapse_ws (strip ?r) = ?r"
    unfolding normalize_query_def Let_def by (rule tidy_fix)
  have l: "lower ?r = ?r"
    unfolding lower_def using normalized_chars [of _ q] by (intro map_idI) simp
  have b: "blank_special ?r = ?r"
    unfolding blank_special_def using normalized_chars [of _ q] by (intro map_idI) simp
  have "normalize_query ?r = collapse_ws (strip (blank_special (lower (collapse_ws (strip ?r)))))"
    by (simp add: normalize_query_def Let_def)
  also have "\<dots> = ?r" by (simp only: f l b)
  finally show ?thesis .
qed

lemma normalize_query_example:
  "normalize_query ''  Hello,   World!  (x_y-z.w) '' = ''hello world x_y-z.w''"
  by (simp add: normalize_query_def strip_def lstrip_def rstrip_def lower_def blank_special_def
      keeps_def char_eval)

subsection \<open>Embedding index: similarity lookup\<close>

lemma sort_desc_sorted: "sorted_wrt (\<lambda>a b. key a \<ge> key b) (sort_desc key xs)"
proof -
  have "sorted (map (\<lambda>x. - key x) (sort_key (\<lambda>x. - key x) xs))" by (rule sorted_sort_key)
  then show ?thesis by (simp add: sort_desc_def sorted_map)
qed

lemma sort_desc_stable: "filter (\<lambda>x. key x = s) (sort_desc key xs) = filter (\<lambda>x. key x = s) xs"
  using sort_key_stable [of "\<lambda>x. - key x" "- s" xs] by (simp add: sort_desc_def)

lemma sort_desc_set: "set (sort_desc key xs) = set xs"
  by (simp add: sort_desc_def)

lemma similar_candidates_set:
  "set (similar_candidates q m t) =
     {(i, s). \<exists>e. (i, e) \<in> set m \<and> calculate_similarity q e = Some s \<and> t \<le> s}"
  unfolding similar_candidates_def by (auto split: option.splits if_splits)

lemma similar_candidates_ties:
  "filter (\<lambda>p. snd p = s) (similar_candidates q m t) =
     concat (map (\<lambda>(i, e). if calculate_similarity q e = Some s \<and> t \<le> s then [(i, s)] else []) m)"
  unfolding similar_candidates_def by (induction m) (auto split: option.splits)

text \<open>
  C6 (as amended). The nearest-neighbour lookup returns the pairs with similarity at least
  the threshold, sorted by descending similarity, truncated to the first k (for k at least 0);
  pairs of equal similarity keep the iteration order of the mapping.
\<close>

theorem find_similar_ranked:
  "(0 \<le> k \<longrightarrow> find_similar_snippets q m k t = take (nat k) (sort_desc snd (similar_candidates q m t)))
   \<and> set (sort_desc snd (similar_candidates q m t)) =
       {(i, s). \<exists>e. (i, e) \<in> set m \<and> calculate_similarity q e = Some s \<and> t \<le> s}
   \<and> sorted_wrt (\<lambda>a b. snd a \<ge> snd b) (sort_desc snd (similar_candidates q m t))
   \<and> (\<forall>s. filter (\<lambda>p. snd p = s) (sort_desc snd (similar_candidates q m t)) =
            concat (map (\<lambda>(i, e). if calculate_similarity q e = Some s \<and> t \<le> s then [(i, s)] else []) m))"
  by (simp add: find_similar_snippets_def sort_desc_sorted sort_desc_stable sort_desc_set
      similar_candidates_set similar_candidates_ties)

theorem find_similar_ranked_witness:
  "(0::int) \<le> 1
   \<and> find_similar_snippets [1, 0] [(''b'', [1, 0]), (''a'', [3, 4]), (''c'', [0, 1])] 1 (1/2) = [(''b'', 1)]"
  using find_similar_ranked [of 1 "[1, 0]" "[(''b'', [1, 0]), (''a'', [3, 4]), (''c'', [0, 1])]" "1/2"]
  by (simp add: similar_candidates_def sort_desc_def calculate_similarity_def vec_norm_def vec_dot_def)

text \<open>
  C6 as stated fails: two snippets of equal similarity come back in the order of the mapping,
  here \<open>b\<close> before \<open>a\<close>, not by ascending snippet ID.
\<close>

theorem find_similar_ties_counterexample:
  "\<not> sorted_wrt by_score_then_id
       (find_similar_snippets [1, 0] [(''b'', [1, 0]), (''a'', [1, 0])] 10 (1/2))"
  by (simp add: find_similar_snippets_def similar_candidates_def sort_desc_def
      calculate_similarity_def vec_norm_def vec_dot_def by_score_then_id_def)

subsection \<open>Embedding index: hybrid strategy\<close>

lemma hybrid_none:
  "(cb s = None \<or> cb s = Some []) \<Longrightarrow> (se s = None \<or> se s = Some []) \<Longrightarrow>
   generate_hybrid_embedding cb se s = None"
  by (auto simp add: generate_hybrid_embedding_def Let_def)

lemma hybrid_single_codebert:
  "cb s = Some v \<Longrightarrow> v \<noteq> [] \<Longrightarrow> (se s = None \<or> se s = Some []) \<Longrightarrow>
   generate_hybrid_embedding cb se s = Some v"
  by (auto simp add: generate_hybrid_embedding_def Let_def)

lemma hybrid_single_sentence:
  "(cb s = None \<or> cb s = Some []) \<Longrightarrow> se s = Some v \<Longrightarrow> v \<noteq> [] \<Longrightarrow>
   generate_hybrid_embedding cb se s = Some v"
  by (auto simp add: generate_hybrid_embedding_def Let_def)

lemma mean_two: "length u = length v \<Longrightarrow> np_mean_axis0 [u, v] = Inr (vec_average u v)"
  unfolding np_mean_axis0_def vec_average_def
  by (auto intro!: nth_equalityI)

lemma hybrid_average:
  "cb s = Some u \<Longrightarrow> se s = Some v \<Longrightarrow> u \<noteq> [] \<Longrightarrow> length u = length v \<Longrightarrow>
   generate_hybrid_embedding cb se s = Some (vec_average u v)"
proof -
  assume a: "cb s = Some u" "se s = Some v" "u \<noteq> []" "length u = length v"
  then have "v \<noteq> []" by auto
  then show ?thesis using a by (simp add: generate_hybrid_embedding_def Let_def mean_two)
qed

lemma hybrid_mismatch:
  "cb s = Some u \<Longrightarrow> se s = Some v \<Longrightarrow> u \<noteq> [] \<Longrightarrow> v \<noteq> [] \<Longrightarrow> length u \<noteq> length v \<Longrightarrow>
   generate_hybrid_embedding cb se s = None"
  by (auto simp add: generate_hybrid_embedding_def Let_def np_mean_axis0_def)

text \<open>
  C5. The hybrid strategy should return the average of the two vectors when both strategies
  produce one. With vectors of the dimensions the generator itself declares for the two
  strategies (768 and 384) the averaging raises inside the handler and the result is \<open>None\<close>.
\<close>

theorem hybrid_declared_dimensions:
  "generate_hybrid_embedding
      (\<lambda>s. Some (replicate (get_embedding_dimension ''codebert'') 1))
      (\<lambda>s. Some (replicate (get_embedding_dimension ''sentence'') 1)) snippet = None"
  by (rule hybrid_mismatch [where u = "replicate (get_embedding_dimension ''codebert'') 1"
        and v = "replicate (get_embedding_dimension ''sentence'') 1"])
     (simp_all add: get_embedding_dimension_def)

subsection \<open>Ranking engine\<close>

lemma weighted_sum_ok:
  "weight_keys \<subseteq> dom weights \<Longrightarrow>
   weighted_sum weights now result query = Inr (base_score weights now result query)"
proof -
  assume "weight_keys \<subseteq> dom weights"
  then have "\<forall>k \<in> weight_keys. weight weights k = Inr (the (weights k))"
    by (auto simp add: weight_def)
  then show ?thesis by (simp add: weight_keys_def weighted_sum_def base_score_def)
qed

lemma relevance_score_formula:
  "weight_keys \<subseteq> dom weights \<Longrightarrow>
   calculate_relevance_score weights now result query =
     min (base_score weights now result query * quality_boost result * popularity_boost result
            * recency_boost result * documentation_boost result) 1"
  by (simp add: calculate_relevance_score_def weighted_sum_ok)

lemma apply_boost_caps:
  "quality_boost (apply_boost query r) \<le> 2 \<and> popularity_boost (apply_boost query r) = min (popularity_boost r) 1.5
   \<and> recency_boost (apply_boost query r) = min (recency_boost r) 1.3
   \<and> documentation_boost (apply_boost query r) = min (documentation_boost r) 1.2
   \<and> snippet (apply_boost query r) = snippet r \<and> similarity_score (apply_boost query r) = similarity_score r
   \<and> view_count (apply_boost query r) = view_count r"
  by (simp add: apply_boost_def Let_def)

lemma sub_scores_ignore_scores:
  "calculate_keyword_score (r\<lparr>relevance_score := x\<rparr>) q = calculate_keyword_score r q"
  "ranking_quality_score (r\<lparr>relevance_score := x\<rparr>) = ranking_quality_score r"
  "calculate_popularity_score (r\<lparr>relevance_score := x\<rparr>) = calculate_popularity_score r"
  "calculate_recency_score now (r\<lparr>relevance_score := x\<rparr>) = calculate_recency_score now r"
  "calculate_documentation_score (r\<lparr>relevance_score := x\<rparr>) = calculate_documentation_score r"
  unfolding calculate_keyword_score_def ranking_quality_score_def calculate_popularity_score_def
    calculate_recency_score_def calculate_documentation_score_def
  by (simp_all split del: if_split cong: if_cong)

lemma base_score_ignores_score:
  "base_score weights now (r\<lparr>relevance_score := x\<rparr>) q = base_score weights now r q"
  by (simp add: base_score_def sub_scores_ignore_scores)

text \<open>
  C1. After boost assignment and ranking, the relevance score of every result is the weighted
  sum of the six sub-scores, multiplied by the four boost factors (capped at 2.0, 1.5, 1.3 and
  1.2 by the boost assignment), and capped at 1.0; so it never exceeds 1.0, and the boosts act
  as factors. The configured weights provide the six keys the engine looks up.
\<close>

theorem ranked_relevance_score:
  assumes "weight_keys \<subseteq> dom weights"
  shows "\<forall>r \<in> set (rank_results weights now (apply_boosts results query) query).
           relevance_score r =
             min (base_score weights now r query * quality_boost r * popularity_boost r
                    * recency_boost r * documentation_boost r) 1
           \<and> quality_boost r \<le> 2 \<and> popularity_boost r \<le> 1.5
           \<and> recency_boost r \<le> 1.3 \<and> documentation_boost r \<le> 1.2
           \<and> relevance_score r \<le> 1"
proof
  fix r assume "r \<in> set (rank_results weights now (apply_boosts results query) query)"
  then obtain r0 where r0: "r0 \<in> set results"
    and r: "r = (apply_boost query r0)\<lparr>relevance_score :=
                  calculate_relevance_score weights now (apply_boost query r0) query\<rparr>"
    by (auto simp add: rank_results_def apply_boosts_def sort_desc_set Let_def)
  let ?b = "apply_boost query r0"
  have caps: "quality_boost ?b \<le> 2" "popularity_boost ?b \<le> 1.5" "recency_boost ?b \<le> 1.3"
    "documentation_boost ?b \<le> 1.2"
    using apply_boost_caps [of query r0] by auto
  have "relevance_score r = calculate_relevance_score weights now ?b query" using r by simp
  also have "\<dots> = min (base_score weights now ?b query * quality_boost ?b * popularity_boost ?b
                        * recency_boost ?b * documentation_boost ?b) 1"
    using assms by (rule relevance_score_formula)
  finally have "relevance_score r =
      min (base_score weights now r query * quality_boost r * popularity_boost r
             * recency_boost r * documentation_boost r) 1"
    using r by (simp add: base_score_ignores_score)
  then show "relevance_score r =
             min (base_score weights now r query * quality_boost r * popularity_boost r
                    * recency_boost r * documentation_boost r) 1
           \<and> quality_boost r \<le> 2 \<and> popularity_boost r \<le> 1.5
           \<and> recency_boost r \<le> 1.3 \<and> documentation_boost r \<le> 1.2
           \<and> relevance_score r \<le> 1"
    using caps r by simp
qed

lemma ranked_sorted:
  "sorted_wrt (\<lambda>a b. relevance_score a \<ge> relevance_score b) (rank_results weights now results query)"
  by (simp add: rank_results_def Let_def sort_desc_sorted)

lemma ranked_length: "length (rank_results weights now results query) = length results"
  by (simp add: rank_results_def Let_def sort_desc_def)

lemma example_sub_scores:
  "calculate_keyword_score example_result example_query = 1"
  "ranking_quality_score example_result = 1"
  "calculate_popularity_score example_result = 0.05"
  "calculate_recency_score 864000000000 example_result = 1"
  "calculate_documentation_score example_result = 0.8"
  by (simp_all add: calculate_keyword_score_def ranking_quality_score_def
      calculate_popularity_score_def calculate_recency_score_def calculate_documentation_score_def
      example_result_def example_query_def example_snippet_def truthy_def is_doc_comment_line_def
      lower_def strip_def lstrip_def rstrip_def char_eval)

lemma example_boost:
  "apply_boost example_query example_result =
     example_result\<lparr>quality_boost := 0.8, popularity_boost := 1.5\<rparr>"
  by (simp add: apply_boost_def get_intent_boost_def example_result_def example_query_def
      example_snippet_def truthy_def)

lemma search_weights_keys: "weight_keys \<subseteq> dom SEARCH_WEIGHTS"
  by (simp add: weight_keys_def SEARCH_WEIGHTS_def)

lemma example_base_score:
  "base_score SEARCH_WEIGHTS 864000000000
     (example_result\<lparr>quality_boost := 0.8, popularity_boost := 1.5\<rparr>) example_query = 0.535"
proof -
  have "base_score SEARCH_WEIGHTS 864000000000 example_result example_query = 0.535"
    by (simp add: base_score_def example_sub_scores SEARCH_WEIGHTS_def) (simp add: example_result_def)
  moreover have "base_score w n (r\<lparr>quality_boost := a, popularity_boost := b\<rparr>) q = base_score w n r q"
    for w n r q a b
    unfolding base_score_def calculate_keyword_score_def ranking_quality_score_def
      calculate_popularity_score_def calculate_recency_score_def calculate_documentation_score_def
    by (simp split del: if_split cong: if_cong)
  ultimately show ?thesis by simp
qed

theorem ranked_relevance_score_witness:
  "weight_keys \<subseteq> dom SEARCH_WEIGHTS
   \<and> map relevance_score (rank_results SEARCH_WEIGHTS 864000000000
         (apply_boosts [example_result] example_query) example_query) = [0.642]"
proof -
  let ?rs = "rank_results SEARCH_WEIGHTS 864000000000
               (apply_boosts [example_result] example_query) example_query"
  let ?b = "example_result\<lparr>quality_boost := 0.8, popularity_boost := 1.5\<rparr>"
  have rs: "?rs = [?b\<lparr>relevance_score := calculate_relevance_score SEARCH_WEIGHTS 864000000000 ?b example_query\<rparr>]"
    by (simp add: rank_results_def apply_boosts_def example_boost sort_desc_def)
  let ?r = "hd ?rs"
  have "?r \<in> set ?rs" using rs by simp
  then have "relevance_score ?r =
      min (base_score SEARCH_WEIGHTS 864000000000 ?r example_query * quality_boost ?r
             * popularity_boost ?r * recency_boost ?r * documentation_boost ?r) 1"
    using ranked_relevance_score [OF search_weights_keys, of 864000000000 "[example_result]" example_query]
    by blast
  moreover have "base_score SEARCH_WEIGHTS 864000000000 ?r example_query = 0.535"
    using rs example_base_score by (simp add: base_score_ignores_score)
  moreover have "quality_boost ?r = 0.8" "popularity_boost ?r = 1.5" "recency_boost ?r = 1"
    "documentation_boost ?r = 1"
    using rs by (simp_all add: example_result_def)
  ultimately have "relevance_score ?r = 0.642" by simp
  then show ?thesis using rs search_weights_keys by simp
qed

subsection \<open>Search orchestrator: lexical score\<close>

lemma fold_add: "foldl (\<lambda>score x. score + f x) a xs = a + (\<Sum>x \<leftarrow> xs. f x :: real)"
  by (induction xs arbitrary: a) simp_all

lemma fold_add3:
  "foldl (\<lambda>score x. score + f x + g x + h x) a xs = a + (\<Sum>x \<leftarrow> xs. f x + g x + h x :: real)"
  by (induction xs arbitrary: a) simp_all

lemma if_bonus: "(if c then x + b else x) = x + (if c then b else (0::real))"
  by simp

lemma lexical_score_rule: "lexical_relevance_score s q = min 1 (lexical_rule s q)"
  unfolding lexical_relevance_score_def lexical_rule_def Let_def if_bonus fold_add fold_add3 hit_def
  by simp

subsection \<open>Search orchestrator: search\<close>

lemma search_loop_results:
  "search_loop ss q t = Inr rs \<Longrightarrow>
     map lr_snippet rs = filter (\<lambda>s. lexical_relevance_score s q \<ge> t) ss
     \<and> (\<forall>r \<in> set rs. lr_score r = lexical_relevance_score (lr_snippet r) q
            \<and> match_type r = determine_match_type (lr_snippet r) q
            \<and> highlight_matches (sn_content (lr_snippet r)) q = Inr (highlighted_content r))"
proof (induction ss arbitrary: rs)
  case Nil
  then show ?case by simp
next
  case (Cons s ss)
  show ?case
  proof (cases "lexical_relevance_score s q \<ge> t")
    case False
    then show ?thesis using Cons by (simp add: Let_def)
  next
    case True
    then obtain h rs' where h: "highlight_matches (sn_content s) q = Inr h"
      and l: "search_loop ss q t = Inr rs'"
      and rs: "rs = \<lparr>lr_snippet = s, lr_score = lexical_relevance_score s q,
                       match_type = determine_match_type s q, highlighted_content = h\<rparr> # rs'"
      using Cons.prems by (auto simp add: Let_def split: sum.splits)
    show ?thesis using Cons.IH [OF l] True h rs by simp
  qed
qed

lemma search_results:
  assumes "search ss query k t = Inr rs"
  shows "\<exists>full. rs = py_slice_to k full
           \<and> sorted_wrt (\<lambda>a b. lr_score a \<ge> lr_score b) full
           \<and> lr_snippet ` set full = {s \<in> set ss. min 1 (lexical_rule s (lower query)) \<ge> t}
           \<and> (\<forall>r \<in> set full. lr_score r = min 1 (lexical_rule (lr_snippet r) (lower query)))"
proof (cases "ss = []")
  case True
  then have "rs = []" using assms by (simp add: search_def)
  then show ?thesis using True by (intro exI [of _ "[]"]) simp
next
  case False
  then obtain rs0 where l: "search_loop ss (lower query) t = Inr rs0"
    and rs: "rs = py_slice_to k (sort_desc lr_score rs0)"
    using assms by (auto simp add: search_def Let_def split: sum.splits)
  note r0 = search_loop_results [OF l]
  have "set (map lr_snippet rs0) = {s \<in> set ss. lexical_relevance_score s (lower query) \<ge> t}"
    using r0 by simp
  then have "lr_snippet ` set (sort_desc lr_score rs0) = {s \<in> set ss. min 1 (lexical_rule s (lower query)) \<ge> t}"
    by (simp add: sort_desc_set lexical_score_rule)
  moreover have "\<forall>r \<in> set (sort_desc lr_score rs0). lr_score r = min 1 (lexical_rule (lr_snippet r) (lower query))"
    using r0 by (simp add: sort_desc_set lexical_score_rule)
  ultimately show ?thesis using rs sort_desc_sorted [of lr_score rs0]
    by (intro exI [of _ "sort_desc lr_score rs0"]) simp
qed

lemma parse_template_plain:
  "CHR 0x5C \<notin> set s \<Longrightarrow> parse_template 0 s = Inr (map TLit s)"
  by (induction s) auto

lemma highlight_parts_plain:
  "\<forall>part \<in> set parts. length part > 2 \<longrightarrow> CHR 0x5C \<notin> set part \<Longrightarrow>
   \<exists>h. highlight_parts parts body = Inr h"
proof (induction parts arbitrary: body)
  case Nil
  then show ?case by simp
next
  case (Cons part parts)
  show ?case
  proof (cases "length part > 2")
    case False
    then show ?thesis using Cons by simp
  next
    case True
    then have "CHR 0x5C \<notin> set (''<mark>'' @ part @ ''</mark>'')" using Cons.prems by simp
    then have "parse_template 0 (''<mark>'' @ part @ ''</mark>'') = Inr (map TLit (''<mark>'' @ part @ ''</mark>''))"
      by (rule parse_template_plain)
    then show ?thesis using True Cons by (simp add: highlight_part_def)
  qed
qed

lemma search_loop_total:
  assumes "\<forall>part \<in> set (split_ws q). length part > 2 \<longrightarrow> CHR 0x5C \<notin> set part"
  shows "\<exists>rs. search_loop ss q t = Inr rs"
proof (induction ss)
  case Nil
  then show ?case by simp
next
  case (Cons s ss)
  obtain h where "highlight_matches (sn_content s) q = Inr h"
    using highlight_parts_plain [OF assms, of "sn_content s"]
    by (cases "q = []") (auto simp add: highlight_matches_def)
  then show ?case using Cons by (auto simp add: Let_def)
qed

lemma search_total:
  assumes "\<forall>part \<in> set (split_ws (lower query)). length part > 2 \<longrightarrow> CHR 0x5C \<notin> set part"
  shows "\<exists>rs. search ss query k t = Inr rs"
  using search_loop_total [OF assms, of ss t] by (auto simp add: search_def Let_def)

lemmas highlight_eval = highlight_matches_def highlight_part_def split_ws_def template_escape_def
  expand_template_def is_digit_def is_octdigit_def is_ascii_letter_def digit_val_def

lemma escape_query_lower: "lower (CHR 0x5C # ''d+'') = CHR 0x5C # ''d+''"
  by (simp add: lower_def char_eval)

lemma digits_snippet_score: "lexical_relevance_score digits_snippet (CHR 0x5C # ''d+'') = 0.975"
  by (simp add: lexical_relevance_score_def digits_snippet_def lower_def split_ws_def char_eval)

lemma digits_snippet_highlight:
  "highlight_matches (sn_content digits_snippet) (CHR 0x5C # ''d+'') = Inl ReError"
  by (simp add: digits_snippet_def highlight_eval char_eval)

text \<open>
  C2. The search should score every snippet by the additive rule and return the snippets at
  or above the threshold, sorted by descending score and truncated. For a query token that
  is not a valid replacement template, here \<open>\d+\<close>, and a snippet that reaches the threshold,
  the highlighter raises and the search returns no result list.
\<close>

theorem search_raises_on_escape:
  "search [digits_snippet] (CHR 0x5C # ''d+'') 20 0.1 = Inl ReError"
  by (simp add: search_def escape_query_lower digits_snippet_score digits_snippet_highlight)

subsection \<open>Search orchestrator: highlighting\<close>

lemma highlight_example:
  "highlight_matches ''def bubbleSort(arr):'' ''sort'' = Inr ''def bubble<mark>sort</mark>(arr):''"
  by (simp add: highlight_eval char_eval)

lemma strip_marks_example:
  "strip_marks ''def bubble<mark>sort</mark>(arr):'' = ''def bubblesort(arr):''"
  by (simp add: strip_marks_def lower_char_def is_upper_def)

text \<open>
  C9. Highlighting should leave the text of the content unchanged and only add markers. The
  replacement is built from the query token, not from the matched text: a match that differs
  from the token in case is rewritten.
\<close>

theorem highlight_rewrites_match:
  "highlight_matches ''def bubbleSort(arr):'' ''sort'' = Inr ''def bubble<mark>sort</mark>(arr):''
   \<and> strip_marks ''def bubble<mark>sort</mark>(arr):'' \<noteq> ''def bubbleSort(arr):''"
  by (simp add: highlight_example strip_marks_example)

end
